theory Spec2Isabelle
  imports Main "HOL-Library.Sublist"
begin

section \<open>JavaScript values\<close>

text \<open>
  JavaScript truthiness of a nullable string, as tested by \<^verbatim>\<open>if (!token)\<close> and
  \<^verbatim>\<open>token ? a : b\<close>: \<^verbatim>\<open>null\<close> and the empty string are falsy.
\<close>

definition truthy :: "string option \<Rightarrow> bool" where
  "truthy t = (case t of None \<Rightarrow> False | Some v \<Rightarrow> v \<noteq> [])"

section \<open>Client-side voting (VoteService.votePost, PostService.votePost)\<close>

text \<open>
  \<^verbatim>\<open>VoteType = 'UPVOTE' | 'DOWNVOTE'\<close>; a nullable vote (\<^verbatim>\<open>VoteType | null\<close>) is an
  \<open>option\<close>. The numeric fields of a post are JavaScript numbers holding counts; they are
  modelled as unbounded integers.
\<close>

datatype VoteType = UPVOTE | DOWNVOTE

record Post =
  post_id :: int
  title :: string
  score :: int
  upvoteCount :: int
  downvoteCount :: int
  userVote :: "VoteType option"

record VotePostRequest =
  req_voteType :: VoteType
  req_postId :: "int option"
  req_commentId :: "int option"

record VoteResult =
  success :: bool
  res_postId :: "int option"
  newScore :: int
  newUpvoteCount :: int
  newDownvoteCount :: int
  res_userVote :: "VoteType option"

text \<open>
  \<^verbatim>\<open>VoteService.votePost\<close> builds the body of \<^verbatim>\<open>POST /api/votes/post\<close> with
  \<^verbatim>\<open>voteType ?? 'UPVOTE'\<close>, and maps the empty response to a \<^verbatim>\<open>VoteResult\<close> whose
  counters are all 0.
\<close>

definition VoteService_request :: "int \<Rightarrow> VoteType option \<Rightarrow> VotePostRequest" where
  "VoteService_request postId voteType =
     \<lparr> req_voteType = (case voteType of None \<Rightarrow> UPVOTE | Some v \<Rightarrow> v),
       req_postId = Some postId,
       req_commentId = None \<rparr>"

definition VoteService_result :: "int \<Rightarrow> VoteType option \<Rightarrow> VoteResult" where
  "VoteService_result postId voteType =
     \<lparr> success = True, res_postId = Some postId, newScore = 0, newUpvoteCount = 0,
       newDownvoteCount = 0, res_userVote = voteType \<rparr>"

text \<open>
  The branch cascade of \<^verbatim>\<open>PostService.votePost\<close> that computes
  \<^verbatim>\<open>newUserVote\<close>, \<^verbatim>\<open>scoreDelta\<close>, \<^verbatim>\<open>upvoteDelta\<close> and \<^verbatim>\<open>downvoteDelta\<close>
  (each delta starts at 0) from the post's current vote and the requested vote.
\<close>

record VoteDeltas =
  newUserVote :: "VoteType option"
  scoreDelta :: int
  upvoteDelta :: int
  downvoteDelta :: int

definition voteDeltas :: "VoteType option \<Rightarrow> VoteType option \<Rightarrow> VoteDeltas" where
  "voteDeltas currentUserVote voteType =
     (if voteType = None then
        (if currentUserVote = Some UPVOTE then
           \<lparr> newUserVote = None, scoreDelta = -1, upvoteDelta = -1, downvoteDelta = 0 \<rparr>
         else if currentUserVote = Some DOWNVOTE then
           \<lparr> newUserVote = None, scoreDelta = 1, upvoteDelta = 0, downvoteDelta = -1 \<rparr>
         else
           \<lparr> newUserVote = None, scoreDelta = 0, upvoteDelta = 0, downvoteDelta = 0 \<rparr>)
      else if currentUserVote = voteType then
        (if voteType = Some UPVOTE then
           \<lparr> newUserVote = None, scoreDelta = -1, upvoteDelta = -1, downvoteDelta = 0 \<rparr>
         else
           \<lparr> newUserVote = None, scoreDelta = 1, upvoteDelta = 0, downvoteDelta = -1 \<rparr>)
      else if currentUserVote = None then
        (if voteType = Some UPVOTE then
           \<lparr> newUserVote = voteType, scoreDelta = 1, upvoteDelta = 1, downvoteDelta = 0 \<rparr>
         else
           \<lparr> newUserVote = voteType, scoreDelta = -1, upvoteDelta = 0, downvoteDelta = 1 \<rparr>)
      else
        (if voteType = Some UPVOTE then
           \<lparr> newUserVote = voteType, scoreDelta = 2, upvoteDelta = 1, downvoteDelta = -1 \<rparr>
         else
           \<lparr> newUserVote = voteType, scoreDelta = -2, upvoteDelta = -1, downvoteDelta = 1 \<rparr>))"

text \<open>The spread \<^verbatim>\<open>{...currentPost, score: ..., upvoteCount: ..., ...}\<close>.\<close>

definition applyDeltas :: "Post \<Rightarrow> VoteDeltas \<Rightarrow> Post" where
  "applyDeltas currentPost d =
     currentPost \<lparr> score := score currentPost + scoreDelta d,
                   upvoteCount := upvoteCount currentPost + upvoteDelta d,
                   downvoteCount := downvoteCount currentPost + downvoteDelta d,
                   userVote := newUserVote d \<rparr>"

text \<open>
  The reactive state of \<^verbatim>\<open>PostService\<close>: the signals \<^verbatim>\<open>posts\<close>, \<^verbatim>\<open>currentPost\<close>,
  \<^verbatim>\<open>loading\<close> and \<^verbatim>\<open>error\<close>.
\<close>

record PostService =
  posts :: "Post list"
  currentPost :: "Post option"
  loading :: bool
  error :: "string option"

datatype VoteError = PostNotFound

text \<open>
  \<^verbatim>\<open>this.posts().find((p) => p.id === postId) || this.currentPost()\<close>: the first post of
  the list with that id, else the current post whatever its id.
\<close>

definition lookupPost :: "PostService \<Rightarrow> int \<Rightarrow> Post option" where
  "lookupPost s postId =
     (case find (\<lambda>p. post_id p = postId) (posts s) of
        Some p \<Rightarrow> Some p
      | None \<Rightarrow> currentPost s)"

text \<open>
  The synchronous part of \<^verbatim>\<open>PostService.votePost\<close>: it sets \<^verbatim>\<open>loading\<close>, clears
  \<^verbatim>\<open>error\<close>, and either fails with "Post not found" (nothing is sent) or returns the
  request handed to the vote endpoint together with the post it has computed.
\<close>

definition votePost :: "PostService \<Rightarrow> int \<Rightarrow> VoteType option
    \<Rightarrow> PostService \<times> (VoteError + VotePostRequest \<times> Post)" where
  "votePost s postId voteType =
     (let s1 = s \<lparr> loading := True, error := None \<rparr> in
      case lookupPost s1 postId of
        None \<Rightarrow> (s1, Inl PostNotFound)
      | Some cur \<Rightarrow>
          (s1, Inr (VoteService_request postId voteType,
                    applyDeltas cur (voteDeltas (userVote cur) voteType))))"

text \<open>
  \<^verbatim>\<open>currentPosts.findIndex((p) => p.id === postId)\<close>, with \<open>None\<close> for -1.
\<close>

fun findIndex :: "('a \<Rightarrow> bool) \<Rightarrow> 'a list \<Rightarrow> nat option" where
  "findIndex P [] = None"
| "findIndex P (x # xs) =
     (if P x then Some 0 else map_option Suc (findIndex P xs))"

text \<open>
  The \<^verbatim>\<open>map(() => ...)\<close> callback that runs when the vote endpoint answers: the value
  produced by \<^verbatim>\<open>VoteService\<close> is its (unused) argument. It stores the post computed
  before the call and returns it.
\<close>

definition votePost_onSuccess :: "PostService \<Rightarrow> int \<Rightarrow> Post \<Rightarrow> VoteResult
    \<Rightarrow> PostService \<times> Post" where
  "votePost_onSuccess s postId updatedPost vr =
     (let s1 = (case findIndex (\<lambda>p. post_id p = postId) (posts s) of
                  Some i \<Rightarrow> s \<lparr> posts := (posts s)[i := updatedPost] \<rparr>
                | None \<Rightarrow> s);
          s2 = (case currentPost s1 of
                  Some c \<Rightarrow> if post_id c = postId
                            then s1 \<lparr> currentPost := Some updatedPost \<rparr> else s1
                | None \<Rightarrow> s1)
      in (s2 \<lparr> loading := False \<rparr>, updatedPost))"

text \<open>A post used to run the definitions on concrete data.\<close>

definition samplePost :: Post where
  "samplePost = \<lparr> post_id = 7, title = ''hello'', score = 3, upvoteCount = 5,
                  downvoteCount = 2, userVote = Some DOWNVOTE \<rparr>"

definition sampleService :: PostService where
  "sampleService = \<lparr> posts = [samplePost], currentPost = None, loading = False,
                     error = None \<rparr>"

section \<open>Realtime connection manager (WebSocketService)\<close>

datatype WebSocketConnectionState = DISCONNECTED | CONNECTING | CONNECTED | RECONNECTING | ERROR

text \<open>
  A logged state change. The \<^verbatim>\<open>timestamp\<close> field (\<^verbatim>\<open>Date.now()\<close>) is left out: the
  order of the log is the order of the list.
\<close>

record WebSocketConnectionEvent =
  ev_state :: WebSocketConnectionState
  ev_error :: "string option"
  ev_reconnectAttempt :: "nat option"

text \<open>
  What the service reads from and does to the STOMP client object: its
  \<^verbatim>\<open>connected\<close> flag and the destinations handed to \<^verbatim>\<open>client.subscribe\<close> together
  with a handler.
\<close>

record StompClient =
  connected :: bool
  subscribed :: "string list"

text \<open>
  The fields of \<^verbatim>\<open>WebSocketService\<close>; \<open>timers\<close> holds the delays of the
  \<^verbatim>\<open>setTimeout\<close> callbacks that were scheduled and have not run yet.
\<close>

record WebSocketService =
  client :: "StompClient option"
  connectionState :: WebSocketConnectionState
  connectionEvents :: "WebSocketConnectionEvent list"
  reconnectAttempts :: nat
  activeSubscriptions :: "string list"
  timers :: "nat list"

definition maxReconnectAttempts :: nat where
  "maxReconnectAttempts = 5"

definition reconnectDelay :: nat where
  "reconnectDelay = 1000"

definition newWebSocketService :: WebSocketService where
  "newWebSocketService =
     \<lparr> client = None, connectionState = DISCONNECTED, connectionEvents = [],
       reconnectAttempts = 0, activeSubscriptions = [], timers = [] \<rparr>"

text \<open>\<^verbatim>\<open>this.client?.connected\<close>: falsy when there is no client.\<close>

definition clientConnected :: "WebSocketService \<Rightarrow> bool" where
  "clientConnected s = (case client s of None \<Rightarrow> False | Some c \<Rightarrow> connected c)"

definition setConnectionState :: "WebSocketConnectionState \<Rightarrow> string option \<Rightarrow> nat option
    \<Rightarrow> WebSocketService \<Rightarrow> WebSocketService" where
  "setConnectionState st err attempt s =
     s \<lparr> connectionState := st,
         connectionEvents := connectionEvents s @
           [\<lparr> ev_state = st, ev_error = err, ev_reconnectAttempt = attempt \<rparr>] \<rparr>"

text \<open>
  \<^verbatim>\<open>connect()\<close>; the argument is the value of
  \<^verbatim>\<open>localStorage.getItem('reddit_access_token')\<close> at the time of the call. A fresh
  client replaces the old one and is activated; the outcome of its handshake arrives
  later as an event.
\<close>

definition connect :: "string option \<Rightarrow> WebSocketService \<Rightarrow> WebSocketService" where
  "connect token s =
     (if clientConnected s then s
      else if \<not> truthy token then s
      else (setConnectionState CONNECTING None None s)
             \<lparr> client := Some \<lparr> connected = False, subscribed = [] \<rparr> \<rparr>)"

definition disconnect :: "WebSocketService \<Rightarrow> WebSocketService" where
  "disconnect s =
     setConnectionState DISCONNECTED None None
       (s \<lparr> client := None, activeSubscriptions := [] \<rparr>)"

definition scheduleReconnect :: "WebSocketService \<Rightarrow> WebSocketService" where
  "scheduleReconnect s =
     (if reconnectAttempts s \<ge> maxReconnectAttempts then
        setConnectionState ERROR (Some ''Max reconnect attempts reached'') None s
      else
        (let s1 = s \<lparr> reconnectAttempts := reconnectAttempts s + 1 \<rparr>;
             s2 = setConnectionState RECONNECTING None (Some (reconnectAttempts s1)) s1;
             delay = reconnectDelay * reconnectAttempts s2
         in s2 \<lparr> timers := timers s2 @ [delay] \<rparr>))"

text \<open>The private \<^verbatim>\<open>subscribe\<close> and \<^verbatim>\<open>unsubscribe\<close>.\<close>

definition subscribe :: "string \<Rightarrow> WebSocketService \<Rightarrow> WebSocketService" where
  "subscribe destination s =
     (case client s of
        None \<Rightarrow> s
      | Some c \<Rightarrow>
          if \<not> connected c then s
          else s \<lparr> client := Some (c \<lparr> subscribed := subscribed c @ [destination] \<rparr>),
                   activeSubscriptions := activeSubscriptions s @ [destination] \<rparr>)"

definition unsubscribe :: "string \<Rightarrow> WebSocketService \<Rightarrow> WebSocketService" where
  "unsubscribe destination s =
     (if \<not> clientConnected s then s
      else s \<lparr> activeSubscriptions := filter (\<lambda>d. d \<noteq> destination) (activeSubscriptions s) \<rparr>)"

text \<open>
  \<^verbatim>\<open>subscribeToUserTopics\<close>; the argument is the username of
  \<^verbatim>\<open>authService.currentUser()\<close>, if there is a user.
\<close>

definition subscribeToUserTopics :: "string option \<Rightarrow> WebSocketService \<Rightarrow> WebSocketService" where
  "subscribeToUserTopics user s =
     (case user of
        None \<Rightarrow> s
      | Some username \<Rightarrow>
          subscribe (''/user/'' @ username @ ''/queue/comments'')
            (subscribe (''/user/'' @ username @ ''/queue/posts'')
              (subscribe (''/user/'' @ username @ ''/queue/votes'')
                (subscribe (''/user/'' @ username @ ''/queue/karma'')
                  (subscribe (''/user/'' @ username @ ''/queue/notifications'') s)))))"

definition subscribeToAnnouncements :: "WebSocketService \<Rightarrow> WebSocketService" where
  "subscribeToAnnouncements s = subscribe ''/topic/announcements'' s"

text \<open>The four callbacks that \<^verbatim>\<open>connect()\<close> installs on the client.\<close>

definition onConnect :: "string option \<Rightarrow> WebSocketService \<Rightarrow> WebSocketService" where
  "onConnect user s =
     subscribeToUserTopics user
       (setConnectionState CONNECTED None None (s \<lparr> reconnectAttempts := 0 \<rparr>))"

definition onDisconnect :: "WebSocketService \<Rightarrow> WebSocketService" where
  "onDisconnect s = setConnectionState DISCONNECTED None None s"

definition onStompError :: "string option \<Rightarrow> WebSocketService \<Rightarrow> WebSocketService" where
  "onStompError msg s = setConnectionState ERROR msg None s"

definition onWebSocketError :: "WebSocketService \<Rightarrow> WebSocketService" where
  "onWebSocketError s =
     scheduleReconnect (setConnectionState ERROR (Some ''WebSocket connection failed'') None s)"

text \<open>
  The scheduled callback \<^verbatim>\<open>() => this.connect()\<close> of the \<open>i\<close>-th pending timer runs.
\<close>

definition timeout :: "nat \<Rightarrow> string option \<Rightarrow> WebSocketService \<Rightarrow> WebSocketService" where
  "timeout i token s =
     (if i < length (timers s)
      then connect token (s \<lparr> timers := take i (timers s) @ drop (Suc i) (timers s) \<rparr>)
      else s)"

text \<open>
  The STOMP library keeps the \<^verbatim>\<open>connected\<close> flag of the client: it is set when the
  handshake completes, just before \<^verbatim>\<open>onConnect\<close> is called, and cleared when the
  transport fails or the broker closes the session. Callbacks are taken to come from
  the client the service currently holds. The library's own reconnection loop is not
  part of the service and is not modelled.
\<close>

definition setClientConnected :: "bool \<Rightarrow> WebSocketService \<Rightarrow> WebSocketService" where
  "setClientConnected b s = s \<lparr> client := map_option (\<lambda>c. c \<lparr> connected := b \<rparr>) (client s) \<rparr>"

text \<open>
  Everything that can happen to the service: calls of its public operations and
  callbacks from the client and from the timers.
\<close>

datatype WsEvent =
    Connect "string option"
  | Disconnect
  | Subscribe string
  | Unsubscribe string
  | OnConnect "string option"
  | OnDisconnect
  | OnStompError "string option"
  | OnWebSocketError
  | Timeout nat "string option"

fun ws_step :: "WebSocketService \<Rightarrow> WsEvent \<Rightarrow> WebSocketService" where
  "ws_step s (Connect token) = connect token s"
| "ws_step s Disconnect = disconnect s"
| "ws_step s (Subscribe d) = subscribe d s"
| "ws_step s (Unsubscribe d) = unsubscribe d s"
| "ws_step s (OnConnect user) = onConnect user (setClientConnected True s)"
| "ws_step s OnDisconnect = onDisconnect (setClientConnected False s)"
| "ws_step s (OnStompError msg) = onStompError msg s"
| "ws_step s OnWebSocketError = onWebSocketError (setClientConnected False s)"
| "ws_step s (Timeout i token) = timeout i token s"

definition ws_run :: "WsEvent list \<Rightarrow> WebSocketService \<Rightarrow> WebSocketService" where
  "ws_run evs s = foldl ws_step s evs"


text \<open>A service connected with token \<^verbatim>\<open>abc\<close> and no user, to run the definitions on.\<close>

definition connectedService :: WebSocketService where
  "connectedService = ws_run [Connect (Some ''abc''), OnConnect None] newWebSocketService"

text \<open>The event object that \<^verbatim>\<open>setConnectionState\<close> appends to the log.\<close>

definition logged :: "WebSocketConnectionState \<Rightarrow> string option \<Rightarrow> nat option
    \<Rightarrow> WebSocketConnectionEvent" where
  "logged st err attempt = \<lparr> ev_state = st, ev_error = err, ev_reconnectAttempt = attempt \<rparr>"




section \<open>Token refresh coordinator (auth interceptor and AuthService)\<close>

text \<open>
  An outgoing request. Header names are compared as written; \<^verbatim>\<open>setHeaders\<close> replaces
  the value of a header that is already present.
\<close>

record HttpRequest =
  http_method :: string
  url :: string
  headers :: "string \<rightharpoonup> string"
  body :: "string option"

definition AUTH_ENDPOINTS :: "string list" where
  "AUTH_ENDPOINTS = [''/api/auth/login'', ''/api/auth/register'', ''/api/auth/refresh'']"

text \<open>\<^verbatim>\<open>s.includes(ep)\<close>: \<open>ep\<close> occurs in \<open>s\<close> as a contiguous substring.\<close>

fun str_includes :: "string \<Rightarrow> string \<Rightarrow> bool" where
  "str_includes [] ep = (ep = [])"
| "str_includes (c # cs) ep = (prefix ep (c # cs) \<or> str_includes cs ep)"

definition isAuthEndpoint :: "string \<Rightarrow> bool" where
  "isAuthEndpoint u = list_ex (\<lambda>ep. str_includes u ep) AUTH_ENDPOINTS"

definition addToken :: "HttpRequest \<Rightarrow> string \<Rightarrow> HttpRequest" where
  "addToken req token =
     req \<lparr> headers := (headers req)(''Authorization'' \<mapsto> ''Bearer '' @ token) \<rparr>"

text \<open>
  The principal and the answer of the login, register and refresh endpoints. Of the
  user's display attributes only some are kept; none is inspected by the coordinator.
\<close>

record ApiUser =
  user_id :: int
  username :: string
  displayName :: "string option"
  karma :: int

record AuthResponse =
  accessToken :: string
  refreshToken :: string
  tokenType :: string
  expiresIn :: int
  user :: ApiUser

text \<open>
  Error values: a JavaScript \<^verbatim>\<open>Error\<close> with its message, an \<^verbatim>\<open>HttpErrorResponse\<close>
  with its status, and the \<^verbatim>\<open>ApiError\<close> that \<^verbatim>\<open>ErrorHandlerService.handleError\<close>
  builds around the error it is given (its \<^verbatim>\<open>originalError\<close>). Only an
  \<^verbatim>\<open>HttpErrorResponse\<close> has a \<^verbatim>\<open>status\<close> property.
\<close>

datatype Error = JsError string | HttpErrorResponse nat | ApiError Error

fun status :: "Error \<Rightarrow> nat option" where
  "status (HttpErrorResponse n) = Some n"
| "status (JsError m) = None"
| "status (ApiError e) = None"

text \<open>
  The state that \<^verbatim>\<open>AuthService\<close> owns: the three \<^verbatim>\<open>localStorage\<close> items (the user
  item holds the serialised user), the signals \<^verbatim>\<open>currentUser\<close> and
  \<^verbatim>\<open>isAuthenticated\<close>, the value of \<^verbatim>\<open>authSubject\<close>, the delay of the pending
  refresh timer (\<^verbatim>\<open>refreshSub\<close>), the targets of \<^verbatim>\<open>router.navigate\<close>, and the
  \<^verbatim>\<open>currentError\<close> signal of the injected error handler.
\<close>

record AuthService =
  TOKEN_KEY :: "string option"
  REFRESH_TOKEN_KEY :: "string option"
  USER_KEY :: "ApiUser option"
  currentUser :: "ApiUser option"
  isAuthenticated :: bool
  authSubject :: "AuthResponse option"
  refreshSub :: "int option"
  navigations :: "string list"
  currentError :: "Error option"

definition getAccessToken :: "AuthService \<Rightarrow> string option" where
  "getAccessToken a = TOKEN_KEY a"

definition scheduleTokenRefresh :: "int \<Rightarrow> AuthService \<Rightarrow> AuthService" where
  "scheduleTokenRefresh expiresInSec a =
     a \<lparr> refreshSub := Some (max ((expiresInSec - 300) * 1000) 60000) \<rparr>"

definition handleAuthSuccess :: "AuthResponse \<Rightarrow> AuthService \<Rightarrow> AuthService" where
  "handleAuthSuccess res a =
     scheduleTokenRefresh (expiresIn res)
       (a \<lparr> TOKEN_KEY := Some (accessToken res),
            REFRESH_TOKEN_KEY := Some (refreshToken res),
            USER_KEY := Some (user res),
            currentUser := Some (user res),
            isAuthenticated := True,
            authSubject := Some res \<rparr>)"

definition clearTokens :: "AuthService \<Rightarrow> AuthService" where
  "clearTokens a = a \<lparr> TOKEN_KEY := None, REFRESH_TOKEN_KEY := None, USER_KEY := None \<rparr>"

definition handleLogout :: "AuthService \<Rightarrow> AuthService" where
  "handleLogout a =
     (clearTokens a) \<lparr> currentUser := None, isAuthenticated := False, authSubject := None,
                       refreshSub := None \<rparr>"

definition logout :: "AuthService \<Rightarrow> AuthService" where
  "logout a = (let a1 = handleLogout a in a1 \<lparr> navigations := navigations a1 @ [''/auth/login''] \<rparr>)"

text \<open>
  \<^verbatim>\<open>ErrorHandlerService.handleError\<close>: records the \<^verbatim>\<open>ApiError\<close> and rethrows it
  (its notification list and counters are not modelled).
\<close>

definition handleError :: "Error \<Rightarrow> AuthService \<Rightarrow> AuthService \<times> Error" where
  "handleError err a = (a \<lparr> currentError := Some (ApiError err) \<rparr>, ApiError err)"

text \<open>
  \<^verbatim>\<open>AuthService.refreshToken()\<close> in three parts. The call either fails at once, without
  any request, when the stored refresh token is missing or empty, or posts the refresh
  token to \<^verbatim>\<open>/api/auth/refresh\<close>; the value returned here is that body. The other two
  parts are its \<^verbatim>\<open>tap\<close> and \<^verbatim>\<open>catchError\<close> callbacks, run when the answer arrives.
\<close>

definition refreshToken_call :: "AuthService \<Rightarrow> Error + string" where
  "refreshToken_call a =
     (case REFRESH_TOKEN_KEY a of
        None \<Rightarrow> Inl (JsError ''No refresh token available'')
      | Some rt \<Rightarrow> if rt = [] then Inl (JsError ''No refresh token available'') else Inr rt)"

definition refreshToken_tap :: "AuthResponse \<Rightarrow> AuthService \<Rightarrow> AuthService" where
  "refreshToken_tap res a = handleAuthSuccess res a"

definition refreshToken_catchError :: "Error \<Rightarrow> AuthService \<Rightarrow> AuthService \<times> Error" where
  "refreshToken_catchError err a = handleError err (handleLogout a)"

text \<open>What goes out to the network: a forwarded request or a call of the refresh endpoint.\<close>

datatype Upstream = Forwarded HttpRequest | RefreshCall string

text \<open>
  The module-level state of the interceptor (\<^verbatim>\<open>isRefreshing\<close> and the current value of
  \<^verbatim>\<open>refreshTokenSubject\<close>) together with what the asynchronous pipelines hold:
  \<^item> \<open>waiters\<close>: the requests whose handler subscribed to \<^verbatim>\<open>refreshTokenSubject\<close> and
    has not received a token yet, in the order of subscription;
  \<^item> \<open>refreshing\<close>: the requests whose handler started a refresh call that has not
    been answered;
  \<^item> \<open>retried\<close>: the requests re-dispatched by such a handler after a successful
    refresh, whose own answer is outstanding;
  \<^item> \<open>upstream\<close>: everything handed to the network so far;
  \<^item> \<open>failures\<close>: the errors delivered to the callers so far;
  \<^item> \<open>auth\<close>: the injected \<^verbatim>\<open>AuthService\<close>.
\<close>

record Coordinator =
  isRefreshing :: bool
  refreshTokenSubject :: "string option"
  waiters :: "HttpRequest list"
  refreshing :: "HttpRequest list"
  retried :: "HttpRequest list"
  upstream :: "Upstream list"
  failures :: "(HttpRequest \<times> Error) list"
  auth :: AuthService

text \<open>
  The request that \<^verbatim>\<open>authInterceptorFn\<close> passes to \<^verbatim>\<open>next\<close>:
  \<^verbatim>\<open>token ? addToken(req, token) : req\<close> unless the URL is an auth endpoint.
\<close>

definition authReq :: "string option \<Rightarrow> HttpRequest \<Rightarrow> HttpRequest" where
  "authReq token req =
     (if isAuthEndpoint (url req) then req
      else case token of
             None \<Rightarrow> req
           | Some t \<Rightarrow> if t = [] then req else addToken req t)"

definition authInterceptorFn :: "HttpRequest \<Rightarrow> Coordinator \<Rightarrow> Coordinator" where
  "authInterceptorFn req s =
     s \<lparr> upstream := upstream s @ [Forwarded (authReq (getAccessToken (auth s)) req)] \<rparr>"

text \<open>
  \<^verbatim>\<open>handle401\<close>, up to the point where it waits. With the flag clear it sets the flag,
  pushes \<^verbatim>\<open>null\<close> into the subject (waiters ignore \<^verbatim>\<open>null\<close>) and calls
  \<^verbatim>\<open>refreshToken()\<close>; if that fails at once, \<^verbatim>\<open>catchError\<close> and \<^verbatim>\<open>finalize\<close> run
  at once. With the flag set it subscribes to the subject, which replays its current
  value: a token re-dispatches the request immediately, \<^verbatim>\<open>null\<close> leaves it waiting.
\<close>

definition handle401 :: "HttpRequest \<Rightarrow> Coordinator \<Rightarrow> Coordinator" where
  "handle401 req s =
     (if \<not> isRefreshing s then
        (let s1 = s \<lparr> isRefreshing := True, refreshTokenSubject := None \<rparr> in
         case refreshToken_call (auth s1) of
           Inl err \<Rightarrow>
             s1 \<lparr> isRefreshing := False, auth := logout (auth s1),
                  failures := failures s1 @ [(req, err)] \<rparr>
         | Inr rt \<Rightarrow>
             s1 \<lparr> upstream := upstream s1 @ [RefreshCall rt],
                  refreshing := refreshing s1 @ [req] \<rparr>)
      else
        (case refreshTokenSubject s of
           Some token \<Rightarrow> s \<lparr> upstream := upstream s @ [Forwarded (addToken req token)] \<rparr>
         | None \<Rightarrow> s \<lparr> waiters := waiters s @ [req] \<rparr>))"

text \<open>
  The \<^verbatim>\<open>catchError\<close> of \<^verbatim>\<open>authInterceptorFn\<close>, installed on requests that are not auth
  endpoints: an error with status 401 goes to \<^verbatim>\<open>handle401\<close>, any other error to the
  caller.
\<close>

definition onResponseError :: "HttpRequest \<Rightarrow> Error \<Rightarrow> Coordinator \<Rightarrow> Coordinator" where
  "onResponseError req err s =
     (if isAuthEndpoint (url req) then s \<lparr> failures := failures s @ [(req, err)] \<rparr>
      else if status err = Some 401 then handle401 req s
      else s \<lparr> failures := failures s @ [(req, err)] \<rparr>)"

definition removeAt :: "nat \<Rightarrow> 'a list \<Rightarrow> 'a list" where
  "removeAt i xs = take i xs @ drop (Suc i) xs"

text \<open>
  The \<open>i\<close>-th outstanding refresh call is answered with \<open>res\<close>: the \<^verbatim>\<open>tap\<close> of
  \<^verbatim>\<open>refreshToken()\<close> stores the session, then the \<^verbatim>\<open>switchMap\<close> of \<^verbatim>\<open>handle401\<close>
  clears the flag, pushes the new access token into the subject, which re-dispatches
  every waiter (\<^verbatim>\<open>take(1)\<close> then ends its subscription), and re-dispatches the request
  that started the refresh.
\<close>

definition refreshSucceeds :: "nat \<Rightarrow> AuthResponse \<Rightarrow> Coordinator \<Rightarrow> Coordinator" where
  "refreshSucceeds i res s =
     (if i < length (refreshing s) then
        (let req = refreshing s ! i; token = accessToken res in
         s \<lparr> auth := refreshToken_tap res (auth s),
             isRefreshing := False,
             refreshTokenSubject := Some token,
             upstream := upstream s @ map (\<lambda>w. Forwarded (addToken w token)) (waiters s)
                           @ [Forwarded (addToken req token)],
             waiters := [],
             refreshing := removeAt i (refreshing s),
             retried := retried s @ [req] \<rparr>)
      else s)"

text \<open>
  The \<open>i\<close>-th outstanding refresh call fails with \<open>err\<close>: the \<^verbatim>\<open>catchError\<close> of
  \<^verbatim>\<open>refreshToken()\<close> logs out and converts the error, then the \<^verbatim>\<open>catchError\<close> of
  \<^verbatim>\<open>handle401\<close> clears the flag, calls \<^verbatim>\<open>logout()\<close> and passes the error to the
  caller of the request that started the refresh. Nothing is pushed into the subject.
\<close>

definition refreshFails :: "nat \<Rightarrow> Error \<Rightarrow> Coordinator \<Rightarrow> Coordinator" where
  "refreshFails i err s =
     (if i < length (refreshing s) then
        (let req = refreshing s ! i;
             (a1, apiError) = refreshToken_catchError err (auth s)
         in s \<lparr> isRefreshing := False,
                auth := logout a1,
                failures := failures s @ [(req, apiError)],
                refreshing := removeAt i (refreshing s) \<rparr>)
      else s)"

text \<open>
  The answer to the \<open>i\<close>-th re-dispatched request arrives. Success completes the
  pipeline and \<^verbatim>\<open>finalize\<close> clears the flag; an error also passes through the
  \<^verbatim>\<open>catchError\<close> of \<^verbatim>\<open>handle401\<close>, which stands after the \<^verbatim>\<open>switchMap\<close>.
\<close>

definition retrySucceeds :: "nat \<Rightarrow> Coordinator \<Rightarrow> Coordinator" where
  "retrySucceeds i s =
     (if i < length (retried s)
      then s \<lparr> isRefreshing := False, retried := removeAt i (retried s) \<rparr>
      else s)"

definition retryFails :: "nat \<Rightarrow> Error \<Rightarrow> Coordinator \<Rightarrow> Coordinator" where
  "retryFails i err s =
     (if i < length (retried s)
      then s \<lparr> isRefreshing := False, auth := logout (auth s),
               failures := failures s @ [(retried s ! i, err)],
               retried := removeAt i (retried s) \<rparr>
      else s)"

text \<open>
  Everything that can happen to the coordinator: a request enters the interceptor, a
  forwarded request is answered with an error, an outstanding refresh call is answered,
  a re-dispatched request is answered.
\<close>

datatype CoordEvent =
    Request HttpRequest
  | ResponseError HttpRequest Error
  | RefreshSucceeds nat AuthResponse
  | RefreshFails nat Error
  | RetrySucceeds nat
  | RetryFails nat Error

fun coord_step :: "Coordinator \<Rightarrow> CoordEvent \<Rightarrow> Coordinator" where
  "coord_step s (Request req) = authInterceptorFn req s"
| "coord_step s (ResponseError req err) = onResponseError req err s"
| "coord_step s (RefreshSucceeds i res) = refreshSucceeds i res s"
| "coord_step s (RefreshFails i err) = refreshFails i err s"
| "coord_step s (RetrySucceeds i) = retrySucceeds i s"
| "coord_step s (RetryFails i err) = retryFails i err s"

definition coord_run :: "CoordEvent list \<Rightarrow> Coordinator \<Rightarrow> Coordinator" where
  "coord_run evs s = foldl coord_step s evs"

text \<open>
  While the flag is set the subject holds \<^verbatim>\<open>null\<close>. This holds initially (flag clear)
  and is kept by every event.
\<close>

definition flagInv :: "Coordinator \<Rightarrow> bool" where
  "flagInv s = (isRefreshing s \<longrightarrow> refreshTokenSubject s = None)"

text \<open>
  Events that are not the answer to a refresh call or to a re-dispatched request.
\<close>

fun noAnswer :: "CoordEvent \<Rightarrow> bool" where
  "noAnswer (Request req) = True"
| "noAnswer (ResponseError req err) = True"
| "noAnswer _ = False"

text \<open>
  The requests, in order of arrival, whose error answer reaches \<^verbatim>\<open>handle401\<close>: the
  request is not an auth endpoint and the error has status 401.
\<close>

fun requests401 :: "CoordEvent list \<Rightarrow> HttpRequest list" where
  "requests401 [] = []"
| "requests401 (ResponseError req err # evs) =
     (if \<not> isAuthEndpoint (url req) \<and> status err = Some 401
      then req # requests401 evs else requests401 evs)"
| "requests401 (e # evs) = requests401 evs"

text \<open>
  The 401 answers of the requests \<open>reqs\<close> arrive one after the other, with no other
  event in between.
\<close>

definition handle401s :: "HttpRequest list \<Rightarrow> Coordinator \<Rightarrow> Coordinator" where
  "handle401s reqs s = foldl (\<lambda>s' r. handle401 r s') s reqs"

text \<open>The bodies of the refresh calls among what was sent upstream.\<close>

fun refreshCalls :: "Upstream list \<Rightarrow> string list" where
  "refreshCalls [] = []"
| "refreshCalls (Forwarded r # us) = refreshCalls us"
| "refreshCalls (RefreshCall rt # us) = rt # refreshCalls us"

text \<open>Concrete data: three requests, a logged-out and a logged-in coordinator.\<close>

definition getPosts :: HttpRequest where
  "getPosts = \<lparr> http_method = ''GET'', url = ''/api/posts'', headers = Map.empty, body = None \<rparr>"

definition getComments :: HttpRequest where
  "getComments = \<lparr> http_method = ''GET'', url = ''/api/comments'', headers = Map.empty, body = None \<rparr>"

definition postLogin :: HttpRequest where
  "postLogin = \<lparr> http_method = ''POST'', url = ''http://localhost:8080/api/auth/login'',
                 headers = Map.empty, body = Some ''credentials'' \<rparr>"

definition alice :: ApiUser where
  "alice = \<lparr> user_id = 1, username = ''alice'', displayName = None, karma = 10 \<rparr>"

definition loggedOut :: Coordinator where
  "loggedOut =
     \<lparr> isRefreshing = False, refreshTokenSubject = None, waiters = [], refreshing = [],
       retried = [], upstream = [], failures = [],
       auth = \<lparr> TOKEN_KEY = None, REFRESH_TOKEN_KEY = None, USER_KEY = None,
                currentUser = None, isAuthenticated = False, authSubject = None,
                refreshSub = None, navigations = [], currentError = None \<rparr> \<rparr>"

definition loggedIn :: Coordinator where
  "loggedIn =
     loggedOut \<lparr> auth := (auth loggedOut)
        \<lparr> TOKEN_KEY := Some ''abc'', REFRESH_TOKEN_KEY := Some ''r1'', USER_KEY := Some alice,
          currentUser := Some alice, isAuthenticated := True \<rparr> \<rparr>"

definition refreshed :: AuthResponse where
  "refreshed = \<lparr> accessToken = ''xyz'', refreshToken = ''r2'', tokenType = ''Bearer'',
                 expiresIn = 86400, user = alice \<rparr>"

text \<open>
  Two requests are sent and answered with 401 while a login request is sent and
  rejected.
\<close>

definition interleaved401s :: "CoordEvent list" where
  "interleaved401s =
     [Request getPosts, Request getComments,
      ResponseError getPosts (HttpErrorResponse 401),
      Request postLogin,
      ResponseError getComments (HttpErrorResponse 401),
      ResponseError postLogin (HttpErrorResponse 401)]"

section \<open>Properties of the vote calculation\<close>

lemma voteDeltas_identity:
  "scoreDelta (voteDeltas cur vt) = upvoteDelta (voteDeltas cur vt) - downvoteDelta (voteDeltas cur vt)"
  by (simp add: voteDeltas_def)

lemma voteDeltas_newUserVote:
  "newUserVote (voteDeltas cur vt) = (if vt = None \<or> cur = vt then None else vt)"
  by (simp add: voteDeltas_def)

text \<open>
  Claim C10. In every branch of the vote calculation the score delta equals the upvote
  delta minus the downvote delta; hence a post with
  \<open>score = upvoteCount - downvoteCount\<close> keeps that identity after the update; and the
  new user vote is null exactly when the requested vote is null (removal) or equals the
  post's current vote (toggle off).
\<close>

theorem votePost_preserves_score_identity:
  "scoreDelta (voteDeltas (userVote p) vt)
     = upvoteDelta (voteDeltas (userVote p) vt) - downvoteDelta (voteDeltas (userVote p) vt)
   \<and> (score p = upvoteCount p - downvoteCount p \<longrightarrow>
        score (applyDeltas p (voteDeltas (userVote p) vt))
          = upvoteCount (applyDeltas p (voteDeltas (userVote p) vt))
            - downvoteCount (applyDeltas p (voteDeltas (userVote p) vt)))
   \<and> (userVote (applyDeltas p (voteDeltas (userVote p) vt)) = None
        \<longleftrightarrow> (vt = None \<or> userVote p = vt))"
proof (intro conjI impI)
  show d: "scoreDelta (voteDeltas (userVote p) vt)
     = upvoteDelta (voteDeltas (userVote p) vt) - downvoteDelta (voteDeltas (userVote p) vt)"
    by (rule voteDeltas_identity)
  show "score (applyDeltas p (voteDeltas (userVote p) vt))
          = upvoteCount (applyDeltas p (voteDeltas (userVote p) vt))
            - downvoteCount (applyDeltas p (voteDeltas (userVote p) vt))"
    if "score p = upvoteCount p - downvoteCount p"
    using that d by (simp add: applyDeltas_def)
  show "userVote (applyDeltas p (voteDeltas (userVote p) vt)) = None
        \<longleftrightarrow> (vt = None \<or> userVote p = vt)"
    by (cases vt) (simp_all add: applyDeltas_def voteDeltas_newUserVote)
qed

theorem votePost_preserves_score_identity_witness:
  "score samplePost = upvoteCount samplePost - downvoteCount samplePost
   \<and> score (applyDeltas samplePost (voteDeltas (userVote samplePost) (Some UPVOTE))) = 5
   \<and> upvoteCount (applyDeltas samplePost (voteDeltas (userVote samplePost) (Some UPVOTE))) = 6
   \<and> downvoteCount (applyDeltas samplePost (voteDeltas (userVote samplePost) (Some UPVOTE))) = 1
   \<and> userVote (applyDeltas samplePost (voteDeltas (userVote samplePost) (Some UPVOTE))) \<noteq> None"
  using votePost_preserves_score_identity [of samplePost "Some UPVOTE"]
  by (simp add: samplePost_def applyDeltas_def voteDeltas_def)

lemma lookupPost_flags [simp]:
  "lookupPost (s \<lparr> loading := l, error := e \<rparr>) postId = lookupPost s postId"
  by (simp add: lookupPost_def split: option.split)

text \<open>
  Claim C9. Whenever \<^verbatim>\<open>votePost\<close> finds the post and so sends a request, the request
  carries \<^verbatim>\<open>UPVOTE\<close> when the vote type is null and the given vote type otherwise
  (never null); the post it produces is the local post with the deltas added to its
  score and counters; and the success callback returns and stores that post whatever
  the \<^verbatim>\<open>VoteResult\<close> derived from the server's empty answer is (its counters are 0).
\<close>

theorem votePost_request_nonnull_state_from_delta:
  assumes "lookupPost s postId = Some cur"
  shows "snd (votePost s postId vt)
           = Inr (VoteService_request postId vt, applyDeltas cur (voteDeltas (userVote cur) vt))
         \<and> req_voteType (VoteService_request postId vt)
             = (case vt of None \<Rightarrow> UPVOTE | Some v \<Rightarrow> v)
         \<and> score (applyDeltas cur (voteDeltas (userVote cur) vt))
             = score cur + scoreDelta (voteDeltas (userVote cur) vt)
         \<and> upvoteCount (applyDeltas cur (voteDeltas (userVote cur) vt))
             = upvoteCount cur + upvoteDelta (voteDeltas (userVote cur) vt)
         \<and> downvoteCount (applyDeltas cur (voteDeltas (userVote cur) vt))
             = downvoteCount cur + downvoteDelta (voteDeltas (userVote cur) vt)
         \<and> userVote (applyDeltas cur (voteDeltas (userVote cur) vt))
             = newUserVote (voteDeltas (userVote cur) vt)
         \<and> snd (votePost_onSuccess s' postId upd vr) = upd
         \<and> posts (fst (votePost_onSuccess s' postId upd vr))
             = (case findIndex (\<lambda>p. post_id p = postId) (posts s') of
                  Some i \<Rightarrow> (posts s')[i := upd]
                | None \<Rightarrow> posts s')
         \<and> votePost_onSuccess s' postId upd vr
             = votePost_onSuccess s' postId upd (VoteService_result postId vt)"
  using assms
  by (simp add: votePost_def Let_def VoteService_request_def applyDeltas_def
      votePost_onSuccess_def split: option.split)

theorem votePost_request_nonnull_state_from_delta_witness:
  "lookupPost sampleService 7 = Some samplePost
   \<and> snd (votePost sampleService 7 None)
       = Inr (\<lparr> req_voteType = UPVOTE, req_postId = Some 7, req_commentId = None \<rparr>,
              samplePost \<lparr> score := 4, upvoteCount := 5, downvoteCount := 1,
                           userVote := None \<rparr>)"
proof -
  have found: "lookupPost sampleService 7 = Some samplePost"
    by (simp add: lookupPost_def sampleService_def samplePost_def)
  from votePost_request_nonnull_state_from_delta [OF found, of None]
  have "snd (votePost sampleService 7 None)
          = Inr (VoteService_request 7 None,
                 applyDeltas samplePost (voteDeltas (userVote samplePost) None))"
    by simp
  then show ?thesis
    using found
    by (simp add: VoteService_request_def applyDeltas_def voteDeltas_def samplePost_def)
qed

section \<open>Properties of the connection manager\<close>


lemmas ws_defs = onWebSocketError_def scheduleReconnect_def setConnectionState_def
  maxReconnectAttempts_def reconnectDelay_def setClientConnected_def

lemma onWebSocketError_below:
  "reconnectAttempts s < 5 \<Longrightarrow>
     onWebSocketError s =
       s \<lparr> connectionState := RECONNECTING,
           connectionEvents := connectionEvents s @
             [\<lparr> ev_state = ERROR, ev_error = Some ''WebSocket connection failed'', ev_reconnectAttempt = None \<rparr>,
              \<lparr> ev_state = RECONNECTING, ev_error = None, ev_reconnectAttempt = Some (reconnectAttempts s + 1) \<rparr>],
           reconnectAttempts := reconnectAttempts s + 1,
           timers := timers s @ [1000 * (reconnectAttempts s + 1)] \<rparr>"
  by (simp add: ws_defs Let_def)


lemma reconnectAttempts_subscribe [simp]:
  "reconnectAttempts (subscribe d s) = reconnectAttempts s"
  by (simp add: subscribe_def split: option.split)





lemma connectedService_eq:
  "connectedService =
     \<lparr> client = Some \<lparr> connected = True, subscribed = [] \<rparr>, connectionState = CONNECTED,
       connectionEvents =
         [\<lparr> ev_state = CONNECTING, ev_error = None, ev_reconnectAttempt = None \<rparr>,
          \<lparr> ev_state = CONNECTED, ev_error = None, ev_reconnectAttempt = None \<rparr>],
       reconnectAttempts = 0, activeSubscriptions = [], timers = [] \<rparr>"
  by (simp add: connectedService_def ws_run_def connect_def onConnect_def truthy_def
      clientConnected_def newWebSocketService_def subscribeToUserTopics_def
      setConnectionState_def setClientConnected_def)

lemma ws_run_append: "ws_run (xs @ ys) s = ws_run ys (ws_run xs s)"
  by (simp add: ws_run_def)

lemma timers_connect [simp]: "timers (connect token s) = timers s"
  by (simp add: connect_def setConnectionState_def)

lemma reconnectAttempts_connect [simp]: "reconnectAttempts (connect token s) = reconnectAttempts s"
  by (simp add: connect_def setConnectionState_def)


lemma timeout_fires:
  "i < length (timers s) \<Longrightarrow>
     ws_step s (Timeout i token)
       = connect token (s \<lparr> timers := take i (timers s) @ drop (Suc i) (timers s) \<rparr>)"
  by (simp add: timeout_def)

lemma connect_attempt:
  "\<not> clientConnected s \<Longrightarrow> truthy token \<Longrightarrow>
     connect token s =
       s \<lparr> connectionState := CONNECTING,
           connectionEvents := connectionEvents s @ [logged CONNECTING None None],
           client := Some \<lparr> connected = False, subscribed = [] \<rparr> \<rparr>"
  by (simp add: connect_def setConnectionState_def logged_def)

lemma connect_skipped:
  "clientConnected s \<or> \<not> truthy token \<Longrightarrow> connect token s = s"
  by (auto simp: connect_def)










lemma subscribe_connected:
  "clientConnected s \<Longrightarrow>
     subscribe k s =
       s \<lparr> client := map_option (\<lambda>c. c \<lparr> subscribed := subscribed c @ [k] \<rparr>) (client s),
           activeSubscriptions := activeSubscriptions s @ [k] \<rparr>"
  by (cases "client s") (simp_all add: subscribe_def clientConnected_def)

lemma subscribe_not_connected:
  "\<not> clientConnected s \<Longrightarrow> subscribe k s = s"
  by (cases "client s") (simp_all add: subscribe_def clientConnected_def)

text \<open>
  Claim C5, as amended. While the client is connected, \<^verbatim>\<open>subscribe\<close> appends the key
  to the registry and hands the handler to the client every time, whether or not the key
  is already there: the number of entries for the key grows by one. It changes nothing
  only when the client is not connected.
\<close>

theorem subscribe_appends_without_dedup:
  "(clientConnected s \<longrightarrow>
       activeSubscriptions (subscribe k s) = activeSubscriptions s @ [k]
     \<and> count_list (activeSubscriptions (subscribe k s)) k
         = count_list (activeSubscriptions s) k + 1
     \<and> map_option subscribed (client (subscribe k s))
         = map_option (\<lambda>c. subscribed c @ [k]) (client s)
     \<and> clientConnected (subscribe k s))
   \<and> (\<not> clientConnected s \<longrightarrow> subscribe k s = s)"
proof (intro conjI impI)
  assume c: "clientConnected s"
  show "activeSubscriptions (subscribe k s) = activeSubscriptions s @ [k]"
    by (simp add: subscribe_connected [OF c])
  show "count_list (activeSubscriptions (subscribe k s)) k
         = count_list (activeSubscriptions s) k + 1"
    by (simp add: subscribe_connected [OF c])
  show "map_option subscribed (client (subscribe k s))
         = map_option (\<lambda>c. subscribed c @ [k]) (client s)"
    by (cases "client s") (simp_all add: subscribe_connected [OF c])
  show "clientConnected (subscribe k s)"
    using c by (cases "client s") (simp_all add: subscribe_def clientConnected_def)
next
  assume "\<not> clientConnected s"
  then show "subscribe k s = s" by (rule subscribe_not_connected)
qed

theorem subscribe_appends_without_dedup_witness:
  "clientConnected connectedService
   \<and> activeSubscriptions (subscribe ''/topic/announcements'' connectedService)
       = [''/topic/announcements'']
   \<and> \<not> clientConnected newWebSocketService
   \<and> subscribe ''/topic/announcements'' newWebSocketService = newWebSocketService"
proof -
  have c: "clientConnected connectedService"
    by (simp add: connectedService_eq clientConnected_def)
  have a: "activeSubscriptions connectedService = []"
    by (simp add: connectedService_eq)
  have n: "\<not> clientConnected newWebSocketService"
    by (simp add: newWebSocketService_def clientConnected_def)
  show ?thesis
    using subscribe_appends_without_dedup [of connectedService "''/topic/announcements''"]
      subscribe_appends_without_dedup [of newWebSocketService "''/topic/announcements''"]
      c a n
    by simp
qed

text \<open>
  Claim C5 as stated fails: subscribing twice to the same key on a connected service
  leaves two registry entries and two handler registrations.
\<close>

theorem subscribe_twice_counterexample:
  "clientConnected connectedService
   \<and> activeSubscriptions
        (subscribe ''/topic/announcements'' (subscribe ''/topic/announcements'' connectedService))
       = [''/topic/announcements'', ''/topic/announcements'']
   \<and> map_option subscribed (client
        (subscribe ''/topic/announcements'' (subscribe ''/topic/announcements'' connectedService)))
       = Some [''/topic/announcements'', ''/topic/announcements'']
   \<and> subscribe ''/topic/announcements'' (subscribe ''/topic/announcements'' connectedService)
       \<noteq> subscribe ''/topic/announcements'' connectedService"
proof -
  define once where "once = subscribe ''/topic/announcements'' connectedService"
  define twice where "twice = subscribe ''/topic/announcements'' once"
  have one: "once =
     \<lparr> client = Some \<lparr> connected = True, subscribed = [''/topic/announcements''] \<rparr>,
       connectionState = CONNECTED,
       connectionEvents =
         [\<lparr> ev_state = CONNECTING, ev_error = None, ev_reconnectAttempt = None \<rparr>,
          \<lparr> ev_state = CONNECTED, ev_error = None, ev_reconnectAttempt = None \<rparr>],
       reconnectAttempts = 0, activeSubscriptions = [''/topic/announcements''],
       timers = [] \<rparr>"
    by (simp add: once_def connectedService_eq subscribe_def)
  have two: "twice =
     \<lparr> client = Some \<lparr> connected = True,
                       subscribed = [''/topic/announcements'', ''/topic/announcements''] \<rparr>,
       connectionState = CONNECTED,
       connectionEvents =
         [\<lparr> ev_state = CONNECTING, ev_error = None, ev_reconnectAttempt = None \<rparr>,
          \<lparr> ev_state = CONNECTED, ev_error = None, ev_reconnectAttempt = None \<rparr>],
       reconnectAttempts = 0,
       activeSubscriptions = [''/topic/announcements'', ''/topic/announcements''],
       timers = [] \<rparr>"
    by (simp add: twice_def one subscribe_def)
  have c: "clientConnected connectedService"
    by (simp add: connectedService_eq clientConnected_def)
  have "activeSubscriptions twice = [''/topic/announcements'', ''/topic/announcements'']
      \<and> map_option subscribed (client twice)
          = Some [''/topic/announcements'', ''/topic/announcements'']
      \<and> twice \<noteq> once"
    by (simp add: one two)
  with c show ?thesis
    unfolding twice_def once_def by simp
qed

lemma subscribe_keeps [simp]:
  "connectionEvents (subscribe d s) = connectionEvents s"
  "connectionState (subscribe d s) = connectionState s"
  "timers (subscribe d s) = timers s"
  by (simp_all add: subscribe_def split: option.split)

lemma subscribeToUserTopics_keeps [simp]:
  "connectionEvents (subscribeToUserTopics u s) = connectionEvents s"
  "connectionState (subscribeToUserTopics u s) = connectionState s"
  "timers (subscribeToUserTopics u s) = timers s"
  "reconnectAttempts (subscribeToUserTopics u s) = reconnectAttempts s"
  by (simp_all add: subscribeToUserTopics_def split: option.split)

lemma onConnect_fields:
  "connectionEvents (onConnect u s) = connectionEvents s @ [logged CONNECTED None None]"
  "connectionState (onConnect u s) = CONNECTED"
  "reconnectAttempts (onConnect u s) = 0"
  "timers (onConnect u s) = timers s"
  by (simp_all add: onConnect_def setConnectionState_def logged_def)

lemma clientConnected_after_error [simp]:
  "\<not> clientConnected (onWebSocketError (setClientConnected False s))"
  by (cases "client s")
     (simp_all add: clientConnected_def ws_defs Let_def)

text \<open>
  Claim C7, as amended. When the connection is established, the transport then fails,
  the reconnect timer runs with a token in storage and the handshake succeeds, the
  states logged are \<^verbatim>\<open>CONNECTED\<close>, \<^verbatim>\<open>ERROR\<close> ("WebSocket connection failed"),
  \<^verbatim>\<open>RECONNECTING\<close> with attempt 1, \<^verbatim>\<open>CONNECTING\<close>, \<^verbatim>\<open>CONNECTED\<close>, in this order
  and with nothing else in between; the attempt counter is 1 after the failure and 0
  after the reconnection.
\<close>

theorem drop_and_reconnect_sequence:
  assumes "truthy token" and "i \<le> length (timers s)"
  shows "connectionEvents (ws_run [OnConnect u, OnWebSocketError, Timeout i token, OnConnect u'] s)
           = connectionEvents s @
               [logged CONNECTED None None,
                logged ERROR (Some ''WebSocket connection failed'') None,
                logged RECONNECTING None (Some 1),
                logged CONNECTING None None,
                logged CONNECTED None None]
       \<and> reconnectAttempts (ws_run [OnConnect u, OnWebSocketError] s) = 1
       \<and> reconnectAttempts
            (ws_run [OnConnect u, OnWebSocketError, Timeout i token, OnConnect u'] s) = 0
       \<and> connectionState
            (ws_run [OnConnect u, OnWebSocketError, Timeout i token, OnConnect u'] s) = CONNECTED"
proof -
  define s1 where "s1 = ws_step s (OnConnect u)"
  define s2 where "s2 = ws_step s1 OnWebSocketError"
  define s3 where "s3 = ws_step s2 (Timeout i token)"
  define s4 where "s4 = ws_step s3 (OnConnect u')"
  have e1: "connectionEvents s1 = connectionEvents s @ [logged CONNECTED None None]"
    and a1: "reconnectAttempts s1 = 0" and t1: "timers s1 = timers s"
    by (simp_all add: s1_def onConnect_fields) (simp_all add: setClientConnected_def)
  have b: "reconnectAttempts (setClientConnected False s1) < 5"
    using a1 by (simp add: setClientConnected_def)
  have s2_eq: "s2 = onWebSocketError (setClientConnected False s1)"
    by (simp add: s2_def)
  have e2: "connectionEvents s2 = connectionEvents s1 @
              [logged ERROR (Some ''WebSocket connection failed'') None,
               logged RECONNECTING None (Some 1)]"
    and a2: "reconnectAttempts s2 = 1" and t2: "timers s2 = timers s @ [1000]"
    using a1 t1 unfolding s2_eq onWebSocketError_below [OF b]
    by (simp_all add: setClientConnected_def logged_def)
  have nc: "\<not> clientConnected s2"
    unfolding s2_eq by simp
  have i2: "i < length (timers s2)"
    using assms(2) by (simp add: t2)
  have e3: "connectionEvents s3 = connectionEvents s2 @ [logged CONNECTING None None]"
    using nc i2 assms(1)
    by (simp add: s3_def timeout_def connect_def clientConnected_def setConnectionState_def
        logged_def)
  have e4: "connectionEvents s4 = connectionEvents s3 @ [logged CONNECTED None None]"
    and a4: "reconnectAttempts s4 = 0" and c4: "connectionState s4 = CONNECTED"
    by (simp_all add: s4_def onConnect_fields) (simp_all add: setClientConnected_def)
  have r4: "ws_run [OnConnect u, OnWebSocketError, Timeout i token, OnConnect u'] s = s4"
    by (simp add: ws_run_def s1_def s2_def s3_def s4_def)
  have r2: "ws_run [OnConnect u, OnWebSocketError] s = s2"
    by (simp add: ws_run_def s1_def s2_def)
  show ?thesis
    unfolding r4 r2 using e1 e2 e3 e4 a2 a4 c4 by simp
qed

theorem drop_and_reconnect_sequence_witness:
  "truthy (Some ''abc'') \<and> 0 \<le> length (timers (connect (Some ''abc'') newWebSocketService))
   \<and> map ev_state (connectionEvents
         (ws_run [OnConnect None, OnWebSocketError, Timeout 0 (Some ''abc''), OnConnect None]
            (connect (Some ''abc'') newWebSocketService)))
       = [CONNECTING, CONNECTED, ERROR, RECONNECTING, CONNECTING, CONNECTED]
   \<and> reconnectAttempts
        (ws_run [OnConnect None, OnWebSocketError, Timeout 0 (Some ''abc''), OnConnect None]
           (connect (Some ''abc'') newWebSocketService)) = 0"
proof -
  have t: "truthy (Some ''abc'')" by (simp add: truthy_def)
  have l: "0 \<le> length (timers (connect (Some ''abc'') newWebSocketService))" by simp
  have c: "connectionEvents (connect (Some ''abc'') newWebSocketService)
             = [logged CONNECTING None None]"
    by (simp add: connect_def clientConnected_def truthy_def newWebSocketService_def
        setConnectionState_def logged_def)
  show ?thesis
    using drop_and_reconnect_sequence [OF t l, of None None] t
    by (simp add: c logged_def)
qed

text \<open>
  Claim C7 as stated fails: after \<^verbatim>\<open>CONNECTED\<close> the log holds \<^verbatim>\<open>ERROR\<close> before
  \<^verbatim>\<open>RECONNECTING\<close>.
\<close>

theorem drop_and_reconnect_counterexample:
  "map ev_state (connectionEvents
      (ws_run [Connect (Some ''abc''), OnConnect None, OnWebSocketError,
               Timeout 0 (Some ''abc''), OnConnect None] newWebSocketService))
     = [CONNECTING, CONNECTED, ERROR, RECONNECTING, CONNECTING, CONNECTED]
   \<and> map ev_state (connectionEvents
      (ws_run [Connect (Some ''abc''), OnConnect None, OnWebSocketError,
               Timeout 0 (Some ''abc''), OnConnect None] newWebSocketService))
     \<noteq> [CONNECTING, CONNECTED, RECONNECTING, CONNECTING, CONNECTED]"
  by (simp add: ws_run_def connect_def onConnect_def truthy_def timeout_def
      clientConnected_def newWebSocketService_def subscribeToUserTopics_def
      setConnectionState_def setClientConnected_def onWebSocketError_def
      scheduleReconnect_def maxReconnectAttempts_def reconnectDelay_def Let_def)

section \<open>Properties of the refresh coordinator\<close>



lemma handle401_starts_refresh:
  "\<not> isRefreshing s \<Longrightarrow> REFRESH_TOKEN_KEY (auth s) = Some rt \<Longrightarrow> rt \<noteq> [] \<Longrightarrow>
     handle401 r s =
       s \<lparr> isRefreshing := True, refreshTokenSubject := None,
           upstream := upstream s @ [RefreshCall rt], refreshing := refreshing s @ [r] \<rparr>"
  by (simp add: handle401_def refreshToken_call_def Let_def)

lemma handle401_waits:
  "isRefreshing s \<Longrightarrow> refreshTokenSubject s = None \<Longrightarrow>
     handle401 r s = s \<lparr> waiters := waiters s @ [r] \<rparr>"
  by (simp add: handle401_def)

lemma handle401s_wait:
  "isRefreshing s \<Longrightarrow> refreshTokenSubject s = None \<Longrightarrow>
     handle401s rs s = s \<lparr> waiters := waiters s @ rs \<rparr>"
  unfolding handle401s_def
proof (induction rs arbitrary: s)
  case Nil
  then show ?case by simp
next
  case (Cons r rs)
  have step: "handle401 r s = s \<lparr> waiters := waiters s @ [r] \<rparr>"
    using Cons.prems by (rule handle401_waits)
  show ?case
    using Cons.prems by (simp add: step Cons.IH)
qed

lemma refreshCalls_append [simp]:
  "refreshCalls (us @ vs) = refreshCalls us @ refreshCalls vs"
  by (induction us rule: refreshCalls.induct) simp_all

lemma flagInv_handle401: "flagInv s \<Longrightarrow> flagInv (handle401 r s)"
  by (auto simp: flagInv_def handle401_def Let_def split: sum.split option.split)

lemma flagInv_step: "flagInv s \<Longrightarrow> flagInv (coord_step s e)"
proof (cases e)
  case (ResponseError req err)
  assume "flagInv s"
  then show ?thesis
    using flagInv_handle401 [of s req]
    by (simp add: ResponseError onResponseError_def) (simp add: flagInv_def)
next
  case (RefreshFails i err)
  assume "flagInv s"
  then show ?thesis
    by (simp add: RefreshFails refreshFails_def flagInv_def Let_def split: prod.split)
qed (simp_all add: flagInv_def authInterceptorFn_def refreshSucceeds_def retrySucceeds_def
      retryFails_def Let_def)

lemma flagInv_run: "flagInv s \<Longrightarrow> flagInv (coord_run evs s)"
  unfolding coord_run_def
  by (induction evs arbitrary: s) (simp_all add: flagInv_step)

lemma handle401_reachable_waits:
  "flagInv s \<Longrightarrow> isRefreshing (coord_run evs s) \<Longrightarrow>
     handle401 q (coord_run evs s)
       = (coord_run evs s) \<lparr> waiters := waiters (coord_run evs s) @ [q] \<rparr>"
  using flagInv_run [of s evs] by (simp add: flagInv_def handle401_def)

lemma coord_run_Cons: "coord_run (e # evs) s = coord_run evs (coord_step s e)"
  by (simp add: coord_run_def)

lemma run_while_refreshing:
  "isRefreshing s \<Longrightarrow> refreshTokenSubject s = None \<Longrightarrow> list_all noAnswer evs \<Longrightarrow>
     refreshCalls (upstream (coord_run evs s)) = refreshCalls (upstream s)
   \<and> waiters (coord_run evs s) = waiters s @ requests401 evs
   \<and> refreshing (coord_run evs s) = refreshing s
   \<and> isRefreshing (coord_run evs s)"
proof (induction evs arbitrary: s)
  case Nil
  then show ?case by (simp add: coord_run_def)
next
  case (Cons e evs)
  from Cons.prems(3) have rest: "list_all noAnswer evs" and now: "noAnswer e" by simp_all
  show ?case
  proof (cases e)
    case (Request req)
    define s' where "s' = coord_step s e"
    have run: "coord_run (e # evs) s = coord_run evs s'"
      by (simp add: coord_run_Cons s'_def)
    have s': "isRefreshing s'" "refreshTokenSubject s' = None"
      "refreshCalls (upstream s') = refreshCalls (upstream s)" "waiters s' = waiters s"
      "refreshing s' = refreshing s"
      using Cons.prems(1,2) by (simp_all add: s'_def Request authInterceptorFn_def)
    show ?thesis
      unfolding run using Cons.IH [OF s'(1) s'(2) rest] s'(3-5)
      by (simp add: Request)
  next
    case (ResponseError req err)
    define s' where "s' = coord_step s e"
    have run: "coord_run (e # evs) s = coord_run evs s'"
      by (simp add: coord_run_Cons s'_def)
    show ?thesis
    proof (cases "\<not> isAuthEndpoint (url req) \<and> status err = Some 401")
      case True
      have "s' = handle401 req s"
        using True by (simp add: s'_def ResponseError onResponseError_def)
      then have eq: "s' = s \<lparr> waiters := waiters s @ [req] \<rparr>"
        using handle401_waits [OF Cons.prems(1,2)] by simp
      have s': "isRefreshing s'" "refreshTokenSubject s' = None"
        using Cons.prems(1,2) by (simp_all add: eq)
      have "waiters s' = waiters s @ [req]" "upstream s' = upstream s"
        "refreshing s' = refreshing s"
        by (simp_all add: eq)
      then show ?thesis
        unfolding run using Cons.IH [OF s' rest] True
        by (simp add: ResponseError)
    next
      case False
      have eq: "s' = s \<lparr> failures := failures s @ [(req, err)] \<rparr>"
        using False by (auto simp: s'_def ResponseError onResponseError_def)
      have s': "isRefreshing s'" "refreshTokenSubject s' = None"
        using Cons.prems(1,2) by (simp_all add: eq)
      have "waiters s' = waiters s" "upstream s' = upstream s"
        "refreshing s' = refreshing s"
        by (simp_all add: eq)
      then show ?thesis
        unfolding run using Cons.IH [OF s' rest] False
        by (auto simp: ResponseError)
    qed
  qed (use now in simp_all)
qed

lemma run_first_401_refreshes:
  "\<not> isRefreshing s \<Longrightarrow> REFRESH_TOKEN_KEY (auth s) = Some rt \<Longrightarrow> rt \<noteq> [] \<Longrightarrow>
   list_all noAnswer evs \<Longrightarrow> requests401 evs = r # rs \<Longrightarrow>
     refreshCalls (upstream (coord_run evs s)) = refreshCalls (upstream s) @ [rt]
   \<and> refreshing (coord_run evs s) = refreshing s @ [r]
   \<and> waiters (coord_run evs s) = waiters s @ rs
   \<and> isRefreshing (coord_run evs s)"
proof (induction evs arbitrary: s)
  case Nil
  then show ?case by simp
next
  case (Cons e evs)
  from Cons.prems(4) have rest: "list_all noAnswer evs" and now: "noAnswer e" by simp_all
  show ?case
  proof (cases e)
    case (Request req)
    define s' where "s' = coord_step s e"
    have run: "coord_run (e # evs) s = coord_run evs s'"
      by (simp add: coord_run_Cons s'_def)
    have s': "\<not> isRefreshing s'" "REFRESH_TOKEN_KEY (auth s') = Some rt"
      "refreshCalls (upstream s') = refreshCalls (upstream s)" "waiters s' = waiters s"
      "refreshing s' = refreshing s"
      using Cons.prems(1,2) by (simp_all add: s'_def Request authInterceptorFn_def)
    have r: "requests401 evs = r # rs"
      using Cons.prems(5) by (simp add: Request)
    show ?thesis
      unfolding run using Cons.IH [OF s'(1) s'(2) Cons.prems(3) rest r] s'(3-5)
      by simp
  next
    case (ResponseError req err)
    define s' where "s' = coord_step s e"
    have run: "coord_run (e # evs) s = coord_run evs s'"
      by (simp add: coord_run_Cons s'_def)
    show ?thesis
    proof (cases "\<not> isAuthEndpoint (url req) \<and> status err = Some 401")
      case True
      have "s' = handle401 req s"
        using True by (simp add: s'_def ResponseError onResponseError_def)
      then have eq: "s' = s \<lparr> isRefreshing := True, refreshTokenSubject := None,
           upstream := upstream s @ [RefreshCall rt], refreshing := refreshing s @ [req] \<rparr>"
        using handle401_starts_refresh [OF Cons.prems(1-3)] by simp
      have s': "isRefreshing s'" "refreshTokenSubject s' = None"
        by (simp_all add: eq)
      have r: "req = r" "requests401 evs = rs"
        using Cons.prems(5) True by (simp_all add: ResponseError)
      have "waiters s' = waiters s" "upstream s' = upstream s @ [RefreshCall rt]"
        "refreshing s' = refreshing s @ [req]"
        by (simp_all add: eq)
      then show ?thesis
        unfolding run using run_while_refreshing [OF s' rest] r
        by simp
    next
      case False
      have eq: "s' = s \<lparr> failures := failures s @ [(req, err)] \<rparr>"
        using False by (auto simp: s'_def ResponseError onResponseError_def)
      have s': "\<not> isRefreshing s'" "REFRESH_TOKEN_KEY (auth s') = Some rt"
        using Cons.prems(1,2) by (simp_all add: eq)
      have r: "requests401 evs = r # rs"
        using Cons.prems(5) False by (auto simp: ResponseError)
      have "waiters s' = waiters s" "upstream s' = upstream s"
        "refreshing s' = refreshing s"
        by (simp_all add: eq)
      then show ?thesis
        unfolding run using Cons.IH [OF s' Cons.prems(3) rest r]
        by simp
    qed
  qed (use now in simp_all)
qed

lemma handle401_no_token:
  "\<not> isRefreshing s \<Longrightarrow> \<not> truthy (REFRESH_TOKEN_KEY (auth s)) \<Longrightarrow>
     handle401 r s =
       s \<lparr> isRefreshing := False, refreshTokenSubject := None, auth := logout (auth s),
           failures := failures s @ [(r, JsError ''No refresh token available'')] \<rparr>"
  by (auto simp: handle401_def refreshToken_call_def truthy_def Let_def split: option.split)

lemma logout_clears:
  "TOKEN_KEY (logout a) = None" "REFRESH_TOKEN_KEY (logout a) = None"
  "USER_KEY (logout a) = None" "currentUser (logout a) = None"
  "\<not> isAuthenticated (logout a)" "authSubject (logout a) = None" "refreshSub (logout a) = None"
  "navigations (logout a) = navigations a @ [''/auth/login'']"
  by (simp_all add: logout_def handleLogout_def clearTokens_def Let_def)

lemma handle401s_snoc: "handle401s (rs @ [r]) s = handle401 r (handle401s rs s)"
  by (simp add: handle401s_def)

lemma handle401s_no_token:
  "\<not> isRefreshing s \<Longrightarrow> \<not> truthy (REFRESH_TOKEN_KEY (auth s)) \<Longrightarrow>
     \<not> isRefreshing (handle401s rs s)
   \<and> \<not> truthy (REFRESH_TOKEN_KEY (auth (handle401s rs s)))
   \<and> upstream (handle401s rs s) = upstream s
   \<and> waiters (handle401s rs s) = waiters s
   \<and> refreshing (handle401s rs s) = refreshing s
   \<and> failures (handle401s rs s)
       = failures s @ map (\<lambda>q. (q, JsError ''No refresh token available'')) rs
   \<and> navigations (auth (handle401s rs s))
       = navigations (auth s) @ replicate (length rs) ''/auth/login''
   \<and> (rs \<noteq> [] \<longrightarrow>
         TOKEN_KEY (auth (handle401s rs s)) = None
       \<and> REFRESH_TOKEN_KEY (auth (handle401s rs s)) = None
       \<and> USER_KEY (auth (handle401s rs s)) = None
       \<and> currentUser (auth (handle401s rs s)) = None
       \<and> \<not> isAuthenticated (auth (handle401s rs s)))"
proof (induction rs rule: rev_induct)
  case Nil
  then show ?case by (simp add: handle401s_def)
next
  case (snoc r rs)
  define t where "t = handle401s rs s"
  from snoc have ih: "\<not> isRefreshing t" "\<not> truthy (REFRESH_TOKEN_KEY (auth t))"
    "upstream t = upstream s" "waiters t = waiters s" "refreshing t = refreshing s"
    "failures t = failures s @ map (\<lambda>q. (q, JsError ''No refresh token available'')) rs"
    "navigations (auth t) = navigations (auth s) @ replicate (length rs) ''/auth/login''"
    by (simp_all add: t_def)
  have step: "handle401s (rs @ [r]) s =
       t \<lparr> isRefreshing := False, refreshTokenSubject := None, auth := logout (auth t),
           failures := failures t @ [(r, JsError ''No refresh token available'')] \<rparr>"
    unfolding handle401s_snoc t_def [symmetric] using ih(1,2) by (rule handle401_no_token)
  show ?case
    unfolding step using ih(3-7)
    by (simp add: logout_clears truthy_def replicate_append_same)
qed

text \<open>
  Claim C1, as amended. Let no refresh be in flight. With a non-empty refresh token
  stored, the 401 answers of any number of requests cause exactly one call of the
  refresh endpoint, as long as no answer to a refresh call or to a re-dispatched request
  arrives among them (new requests and other error answers may): the first handler sets
  the flag and issues the call, every later one joins the waiters. With no refresh token
  stored (a missing or empty item) no call of the refresh endpoint is made: each handler
  fails at once with "No refresh token available" and forces a logout (stored items
  removed, user and authenticated state reset, router sent to the login page). A handler
  that finds the flag set never issues a refresh call; in every state the coordinator
  can reach from one where the flag is clear, such a handler joins the waiters.
\<close>

theorem single_refresh_call_for_concurrent_401s:
  assumes "\<not> isRefreshing s"
  shows "(REFRESH_TOKEN_KEY (auth s) = Some rt \<and> rt \<noteq> [] \<longrightarrow>
            upstream (handle401s (r # rs) s) = upstream s @ [RefreshCall rt]
          \<and> refreshCalls (upstream (handle401s (r # rs) s)) = refreshCalls (upstream s) @ [rt]
          \<and> isRefreshing (handle401 r s)
          \<and> refreshing (handle401s (r # rs) s) = refreshing s @ [r]
          \<and> waiters (handle401s (r # rs) s) = waiters s @ rs
          \<and> isRefreshing (handle401s (r # rs) s)
          \<and> failures (handle401s (r # rs) s) = failures s
          \<and> (list_all noAnswer evs \<and> requests401 evs = r # rs \<longrightarrow>
                refreshCalls (upstream (coord_run evs s)) = refreshCalls (upstream s) @ [rt]
              \<and> refreshing (coord_run evs s) = refreshing s @ [r]
              \<and> waiters (coord_run evs s) = waiters s @ rs
              \<and> isRefreshing (coord_run evs s)))
       \<and> (\<not> truthy (REFRESH_TOKEN_KEY (auth s)) \<longrightarrow>
            handle401 r s =
              s \<lparr> isRefreshing := False, refreshTokenSubject := None, auth := logout (auth s),
                  failures := failures s @ [(r, JsError ''No refresh token available'')] \<rparr>
          \<and> upstream (handle401s (r # rs) s) = upstream s
          \<and> \<not> isRefreshing (handle401s (r # rs) s)
          \<and> waiters (handle401s (r # rs) s) = waiters s
          \<and> refreshing (handle401s (r # rs) s) = refreshing s
          \<and> failures (handle401s (r # rs) s)
              = failures s @ map (\<lambda>q. (q, JsError ''No refresh token available'')) (r # rs)
          \<and> TOKEN_KEY (auth (handle401s (r # rs) s)) = None
          \<and> REFRESH_TOKEN_KEY (auth (handle401s (r # rs) s)) = None
          \<and> USER_KEY (auth (handle401s (r # rs) s)) = None
          \<and> currentUser (auth (handle401s (r # rs) s)) = None
          \<and> \<not> isAuthenticated (auth (handle401s (r # rs) s))
          \<and> navigations (auth (handle401s (r # rs) s))
              = navigations (auth s) @ replicate (Suc (length rs)) ''/auth/login'')
       \<and> (isRefreshing s' \<longrightarrow>
            refreshCalls (upstream (handle401 q s')) = refreshCalls (upstream s'))
       \<and> (isRefreshing (coord_run evs' s) \<longrightarrow>
            handle401 q (coord_run evs' s)
              = (coord_run evs' s) \<lparr> waiters := waiters (coord_run evs' s) @ [q] \<rparr>)"
proof -
  have stored: "REFRESH_TOKEN_KEY (auth s) = Some rt \<and> rt \<noteq> [] \<longrightarrow>
            upstream (handle401s (r # rs) s) = upstream s @ [RefreshCall rt]
          \<and> refreshCalls (upstream (handle401s (r # rs) s)) = refreshCalls (upstream s) @ [rt]
          \<and> isRefreshing (handle401 r s)
          \<and> refreshing (handle401s (r # rs) s) = refreshing s @ [r]
          \<and> waiters (handle401s (r # rs) s) = waiters s @ rs
          \<and> isRefreshing (handle401s (r # rs) s)
          \<and> failures (handle401s (r # rs) s) = failures s
          \<and> (list_all noAnswer evs \<and> requests401 evs = r # rs \<longrightarrow>
                refreshCalls (upstream (coord_run evs s)) = refreshCalls (upstream s) @ [rt]
              \<and> refreshing (coord_run evs s) = refreshing s @ [r]
              \<and> waiters (coord_run evs s) = waiters s @ rs
              \<and> isRefreshing (coord_run evs s))"
  proof
    assume tok: "REFRESH_TOKEN_KEY (auth s) = Some rt \<and> rt \<noteq> []"
    then have t1: "REFRESH_TOKEN_KEY (auth s) = Some rt" and t2: "rt \<noteq> []" by simp_all
    define s1 where "s1 = handle401 r s"
    have s1: "s1 = s \<lparr> isRefreshing := True, refreshTokenSubject := None,
                       upstream := upstream s @ [RefreshCall rt],
                       refreshing := refreshing s @ [r] \<rparr>"
      unfolding s1_def using assms t1 t2 by (rule handle401_starts_refresh)
    have flag: "isRefreshing s1" and subj: "refreshTokenSubject s1 = None"
      by (simp_all add: s1)
    have "handle401s (r # rs) s = handle401s rs s1"
      by (simp add: handle401s_def s1_def)
    also have "\<dots> = s1 \<lparr> waiters := waiters s1 @ rs \<rparr>"
      using flag subj by (rule handle401s_wait)
    finally have all: "handle401s (r # rs) s = s1 \<lparr> waiters := waiters s1 @ rs \<rparr>" .
    have back_to_back: "upstream (handle401s (r # rs) s) = upstream s @ [RefreshCall rt]
         \<and> refreshCalls (upstream (handle401s (r # rs) s)) = refreshCalls (upstream s) @ [rt]
         \<and> isRefreshing (handle401 r s)
         \<and> refreshing (handle401s (r # rs) s) = refreshing s @ [r]
         \<and> waiters (handle401s (r # rs) s) = waiters s @ rs
         \<and> isRefreshing (handle401s (r # rs) s)
         \<and> failures (handle401s (r # rs) s) = failures s"
      unfolding all using flag by (simp add: s1 s1_def [symmetric])
    have interleaved: "list_all noAnswer evs \<and> requests401 evs = r # rs \<longrightarrow>
                refreshCalls (upstream (coord_run evs s)) = refreshCalls (upstream s) @ [rt]
              \<and> refreshing (coord_run evs s) = refreshing s @ [r]
              \<and> waiters (coord_run evs s) = waiters s @ rs
              \<and> isRefreshing (coord_run evs s)"
      using run_first_401_refreshes [OF assms t1 t2, of evs r rs] by blast
    from back_to_back interleaved
    show "upstream (handle401s (r # rs) s) = upstream s @ [RefreshCall rt]
          \<and> refreshCalls (upstream (handle401s (r # rs) s)) = refreshCalls (upstream s) @ [rt]
          \<and> isRefreshing (handle401 r s)
          \<and> refreshing (handle401s (r # rs) s) = refreshing s @ [r]
          \<and> waiters (handle401s (r # rs) s) = waiters s @ rs
          \<and> isRefreshing (handle401s (r # rs) s)
          \<and> failures (handle401s (r # rs) s) = failures s
          \<and> (list_all noAnswer evs \<and> requests401 evs = r # rs \<longrightarrow>
                refreshCalls (upstream (coord_run evs s)) = refreshCalls (upstream s) @ [rt]
              \<and> refreshing (coord_run evs s) = refreshing s @ [r]
              \<and> waiters (coord_run evs s) = waiters s @ rs
              \<and> isRefreshing (coord_run evs s))"
      by blast
  qed
  have missing: "\<not> truthy (REFRESH_TOKEN_KEY (auth s)) \<longrightarrow>
            handle401 r s =
              s \<lparr> isRefreshing := False, refreshTokenSubject := None, auth := logout (auth s),
                  failures := failures s @ [(r, JsError ''No refresh token available'')] \<rparr>
          \<and> upstream (handle401s (r # rs) s) = upstream s
          \<and> \<not> isRefreshing (handle401s (r # rs) s)
          \<and> waiters (handle401s (r # rs) s) = waiters s
          \<and> refreshing (handle401s (r # rs) s) = refreshing s
          \<and> failures (handle401s (r # rs) s)
              = failures s @ map (\<lambda>q. (q, JsError ''No refresh token available'')) (r # rs)
          \<and> TOKEN_KEY (auth (handle401s (r # rs) s)) = None
          \<and> REFRESH_TOKEN_KEY (auth (handle401s (r # rs) s)) = None
          \<and> USER_KEY (auth (handle401s (r # rs) s)) = None
          \<and> currentUser (auth (handle401s (r # rs) s)) = None
          \<and> \<not> isAuthenticated (auth (handle401s (r # rs) s))
          \<and> navigations (auth (handle401s (r # rs) s))
              = navigations (auth s) @ replicate (Suc (length rs)) ''/auth/login''"
  proof
    assume none: "\<not> truthy (REFRESH_TOKEN_KEY (auth s))"
    have one: "handle401 r s =
              s \<lparr> isRefreshing := False, refreshTokenSubject := None, auth := logout (auth s),
                  failures := failures s @ [(r, JsError ''No refresh token available'')] \<rparr>"
      using assms none by (rule handle401_no_token)
    have ne: "r # rs \<noteq> []" by simp
    from handle401s_no_token [OF assms none, of "r # rs"] ne one
    show "handle401 r s =
              s \<lparr> isRefreshing := False, refreshTokenSubject := None, auth := logout (auth s),
                  failures := failures s @ [(r, JsError ''No refresh token available'')] \<rparr>
          \<and> upstream (handle401s (r # rs) s) = upstream s
          \<and> \<not> isRefreshing (handle401s (r # rs) s)
          \<and> waiters (handle401s (r # rs) s) = waiters s
          \<and> refreshing (handle401s (r # rs) s) = refreshing s
          \<and> failures (handle401s (r # rs) s)
              = failures s @ map (\<lambda>q. (q, JsError ''No refresh token available'')) (r # rs)
          \<and> TOKEN_KEY (auth (handle401s (r # rs) s)) = None
          \<and> REFRESH_TOKEN_KEY (auth (handle401s (r # rs) s)) = None
          \<and> USER_KEY (auth (handle401s (r # rs) s)) = None
          \<and> currentUser (auth (handle401s (r # rs) s)) = None
          \<and> \<not> isAuthenticated (auth (handle401s (r # rs) s))
          \<and> navigations (auth (handle401s (r # rs) s))
              = navigations (auth s) @ replicate (Suc (length rs)) ''/auth/login''"
      by simp
  qed
  have later: "isRefreshing s' \<longrightarrow>
      refreshCalls (upstream (handle401 q s')) = refreshCalls (upstream s')"
    by (simp add: handle401_def split: option.split)
  have reach: "isRefreshing (coord_run evs' s) \<longrightarrow>
      handle401 q (coord_run evs' s)
        = (coord_run evs' s) \<lparr> waiters := waiters (coord_run evs' s) @ [q] \<rparr>"
    using assms handle401_reachable_waits [of s evs' q] by (simp add: flagInv_def)
  from stored missing later reach show ?thesis by blast
qed

lemmas coordinator_data = loggedIn_def loggedOut_def getPosts_def getComments_def alice_def
  refreshed_def

lemmas auth_defs = logout_def handleLogout_def clearTokens_def handleAuthSuccess_def
  scheduleTokenRefresh_def handleError_def refreshToken_call_def refreshToken_tap_def
  refreshToken_catchError_def

theorem single_refresh_call_for_concurrent_401s_witness:
  "\<not> isRefreshing loggedIn \<and> REFRESH_TOKEN_KEY (auth loggedIn) = Some ''r1'' \<and> ''r1'' \<noteq> []
   \<and> upstream (handle401s [getPosts, getComments] loggedIn) = [RefreshCall ''r1'']
   \<and> refreshing (handle401s [getPosts, getComments] loggedIn) = [getPosts]
   \<and> waiters (handle401s [getPosts, getComments] loggedIn) = [getComments]
   \<and> list_all noAnswer interleaved401s \<and> requests401 interleaved401s = [getPosts, getComments]
   \<and> refreshCalls (upstream (coord_run interleaved401s loggedIn)) = [''r1'']
   \<and> waiters (coord_run interleaved401s loggedIn) = [getComments]
   \<and> \<not> isRefreshing loggedOut \<and> \<not> truthy (REFRESH_TOKEN_KEY (auth loggedOut))
   \<and> upstream (handle401s [getPosts, getComments] loggedOut) = []
   \<and> map snd (failures (handle401s [getPosts, getComments] loggedOut))
       = [JsError ''No refresh token available'', JsError ''No refresh token available'']
   \<and> navigations (auth (handle401s [getPosts, getComments] loggedOut))
       = [''/auth/login'', ''/auth/login'']"
proof -
  have a: "\<not> isRefreshing loggedIn" by (simp add: coordinator_data)
  have b: "REFRESH_TOKEN_KEY (auth loggedIn) = Some ''r1''" by (simp add: coordinator_data)
  have u: "upstream loggedIn = []" and r: "refreshing loggedIn = []"
    and w: "waiters loggedIn = []"
    by (simp_all add: coordinator_data)
  have e: "list_all noAnswer interleaved401s
           \<and> requests401 interleaved401s = [getPosts, getComments]"
    by (simp add: interleaved401s_def isAuthEndpoint_def AUTH_ENDPOINTS_def getPosts_def
        getComments_def postLogin_def)
  have a0: "\<not> isRefreshing loggedOut" and b0: "\<not> truthy (REFRESH_TOKEN_KEY (auth loggedOut))"
    and u0: "upstream loggedOut = []" and f0: "failures loggedOut = []"
    and n0: "navigations (auth loggedOut) = []"
    by (simp_all add: loggedOut_def truthy_def)
  show ?thesis
    using single_refresh_call_for_concurrent_401s [OF a, where rt = "''r1''" and r = getPosts and rs = "[getComments]"
                    and evs = interleaved401s]
      single_refresh_call_for_concurrent_401s [OF a0, where r = getPosts and rs = "[getComments]"]
      a b u r w e a0 b0 u0 f0 n0
    by simp
qed

text \<open>
  Claim C1 as stated fails: with no refresh token in storage, two requests that receive a
  401 while no refresh is in flight cause no call of the refresh endpoint at all; each
  handler fails at once with "No refresh token available".
\<close>

theorem no_refresh_call_without_refresh_token_counterexample:
  "\<not> isRefreshing loggedOut
   \<and> refreshCalls (upstream (handle401s [getPosts, getComments] loggedOut)) = []
   \<and> length (refreshCalls (upstream (handle401s [getPosts, getComments] loggedOut))) \<noteq> 1
   \<and> waiters (handle401s [getPosts, getComments] loggedOut) = []
   \<and> map snd (failures (handle401s [getPosts, getComments] loggedOut))
       = [JsError ''No refresh token available'', JsError ''No refresh token available'']"
  by (simp add: handle401s_def handle401_def Let_def auth_defs loggedOut_def)

text \<open>
  Why answers are excluded above: the \<^verbatim>\<open>finalize\<close> of a handler runs when its
  re-dispatched request is answered and clears the flag, also while a refresh call
  started by another handler is outstanding. Here the first refresh succeeds, a second
  one is started, the answer to the first re-dispatched request arrives, and the next
  401 starts a third refresh call beside the second.
\<close>

lemma retry_answer_clears_flag_while_refreshing:
  "refreshCalls (upstream (coord_run
      [ResponseError getPosts (HttpErrorResponse 401), RefreshSucceeds 0 refreshed,
       ResponseError getComments (HttpErrorResponse 401), RetrySucceeds 0,
       ResponseError getPosts (HttpErrorResponse 401)] loggedIn))
     = [''r1'', ''r2'', ''r2'']
   \<and> refreshing (coord_run
      [ResponseError getPosts (HttpErrorResponse 401), RefreshSucceeds 0 refreshed,
       ResponseError getComments (HttpErrorResponse 401), RetrySucceeds 0,
       ResponseError getPosts (HttpErrorResponse 401)] loggedIn)
     = [getComments, getPosts]"
  by (simp add: coord_run_def onResponseError_def isAuthEndpoint_def AUTH_ENDPOINTS_def
      handle401_def refreshSucceeds_def retrySucceeds_def removeAt_def Let_def auth_defs
      coordinator_data)

text \<open>
  Claim C2 does not hold of the code. Two requests receive a 401, the first starts the
  refresh and the second waits; the refresh call then fails. Only the first request
  receives the error: the second is still among the waiters, and is neither failed nor
  re-dispatched.
\<close>

theorem refresh_failure_leaves_waiter_pending:
  "waiters (refreshFails 0 (HttpErrorResponse 500) (handle401s [getPosts, getComments] loggedIn))
     = [getComments]
   \<and> failures (refreshFails 0 (HttpErrorResponse 500) (handle401s [getPosts, getComments] loggedIn))
     = [(getPosts, ApiError (HttpErrorResponse 500))]
   \<and> upstream (refreshFails 0 (HttpErrorResponse 500) (handle401s [getPosts, getComments] loggedIn))
     = [RefreshCall ''r1'']"
  by (simp add: handle401s_def handle401_def refreshFails_def removeAt_def Let_def auth_defs
      loggedIn_def loggedOut_def)

lemma addToken_header:
  "headers (addToken q t) ''Authorization'' = Some (''Bearer '' @ t)"
  by (simp add: addToken_def)

text \<open>
  Claim C3. When an outstanding refresh call succeeds with access token \<open>T\<close>, what is
  sent upstream is exactly: every waiter, then the request that started the refresh,
  each with \<^verbatim>\<open>Authorization: Bearer T\<close>; no waiter remains and nobody receives an
  error.
\<close>

theorem refresh_success_redispatches_with_new_token:
  assumes "i < length (refreshing s)"
  shows "upstream (refreshSucceeds i res s)
           = upstream s @ map (\<lambda>w. Forwarded (addToken w (accessToken res))) (waiters s)
               @ [Forwarded (addToken (refreshing s ! i) (accessToken res))]
       \<and> (\<forall>q. headers (addToken q (accessToken res)) ''Authorization''
               = Some (''Bearer '' @ accessToken res))
       \<and> waiters (refreshSucceeds i res s) = []
       \<and> failures (refreshSucceeds i res s) = failures s
       \<and> TOKEN_KEY (auth (refreshSucceeds i res s)) = Some (accessToken res)"
  using assms
  by (simp add: refreshSucceeds_def Let_def addToken_header auth_defs)

theorem refresh_success_redispatches_with_new_token_witness:
  "0 < length (refreshing (handle401s [getPosts, getComments] loggedIn))
   \<and> upstream (refreshSucceeds 0 refreshed (handle401s [getPosts, getComments] loggedIn))
       = [RefreshCall ''r1'', Forwarded (addToken getComments ''xyz''),
          Forwarded (addToken getPosts ''xyz'')]
   \<and> headers (addToken getComments ''xyz'') ''Authorization'' = Some ''Bearer xyz''
   \<and> headers (addToken getPosts ''xyz'') ''Authorization'' = Some ''Bearer xyz''"
proof -
  have st: "handle401s [getPosts, getComments] loggedIn
      = loggedIn \<lparr> isRefreshing := True, waiters := [getComments], refreshing := [getPosts],
                  upstream := [RefreshCall ''r1''] \<rparr>"
    by (simp add: handle401s_def handle401_def Let_def auth_defs loggedIn_def loggedOut_def)
  have l: "0 < length (refreshing (handle401s [getPosts, getComments] loggedIn))"
    by (simp add: st)
  show ?thesis
    using refresh_success_redispatches_with_new_token [OF l, of refreshed] l
    by (simp add: st refreshed_def)
qed

text \<open>
  Claim C4. When an outstanding refresh call fails, the flag is cleared, the three
  stored items are removed, the user and the authenticated state are reset, the refresh
  timer is cancelled, the router is sent to the login page, the error goes to the caller
  of the request that started the refresh, and nothing is sent upstream: the refresh is
  not repeated. A 401 handled with the flag clear and a refresh token stored, followed
  by the failure of its refresh call, has sent exactly one refresh call.
\<close>

theorem refresh_failure_destroys_session:
  "(i < length (refreshing s) \<longrightarrow>
       \<not> isRefreshing (refreshFails i err s)
     \<and> TOKEN_KEY (auth (refreshFails i err s)) = None
     \<and> REFRESH_TOKEN_KEY (auth (refreshFails i err s)) = None
     \<and> USER_KEY (auth (refreshFails i err s)) = None
     \<and> currentUser (auth (refreshFails i err s)) = None
     \<and> \<not> isAuthenticated (auth (refreshFails i err s))
     \<and> authSubject (auth (refreshFails i err s)) = None
     \<and> refreshSub (auth (refreshFails i err s)) = None
     \<and> navigations (auth (refreshFails i err s)) = navigations (auth s) @ [''/auth/login'']
     \<and> upstream (refreshFails i err s) = upstream s
     \<and> retried (refreshFails i err s) = retried s
     \<and> failures (refreshFails i err s) = failures s @ [(refreshing s ! i, ApiError err)])
   \<and> (\<not> isRefreshing s \<and> REFRESH_TOKEN_KEY (auth s) = Some rt \<and> rt \<noteq> [] \<longrightarrow>
       upstream (refreshFails (length (refreshing s)) err (handle401 r s))
         = upstream s @ [RefreshCall rt]
     \<and> refreshing (refreshFails (length (refreshing s)) err (handle401 r s)) = refreshing s
     \<and> \<not> isRefreshing (refreshFails (length (refreshing s)) err (handle401 r s)))"
  by (simp add: refreshFails_def handle401_def removeAt_def Let_def auth_defs)

theorem refresh_failure_destroys_session_witness:
  "\<not> isRefreshing loggedIn \<and> REFRESH_TOKEN_KEY (auth loggedIn) = Some ''r1'' \<and> ''r1'' \<noteq> []
   \<and> 0 < length (refreshing (handle401 getPosts loggedIn))
   \<and> upstream (refreshFails 0 (HttpErrorResponse 500) (handle401 getPosts loggedIn))
       = [RefreshCall ''r1'']
   \<and> TOKEN_KEY (auth (refreshFails 0 (HttpErrorResponse 500) (handle401 getPosts loggedIn))) = None
   \<and> \<not> isAuthenticated (auth (refreshFails 0 (HttpErrorResponse 500) (handle401 getPosts loggedIn)))"
proof -
  have a: "\<not> isRefreshing loggedIn \<and> REFRESH_TOKEN_KEY (auth loggedIn) = Some ''r1''
           \<and> ''r1'' \<noteq> [] \<and> refreshing loggedIn = []"
    by (simp add: loggedIn_def loggedOut_def)
  have l: "0 < length (refreshing (handle401 getPosts loggedIn))"
    by (simp add: handle401_def Let_def auth_defs loggedIn_def loggedOut_def)
  have u: "upstream loggedIn = []" by (simp add: loggedIn_def loggedOut_def)
  show ?thesis
    using refresh_failure_destroys_session
            [where i = 0 and s = "handle401 getPosts loggedIn" and err = "HttpErrorResponse 500"]
          refresh_failure_destroys_session
            [where s = loggedIn and err = "HttpErrorResponse 500" and rt = "''r1''"
               and r = getPosts]
          a l u
    by simp
qed

text \<open>
  Claim C8. The interceptor forwards exactly one request. It is the request itself when
  the URL contains one of the three auth endpoint paths. Otherwise, with a (non-empty)
  access token stored, it is the request with \<^verbatim>\<open>Authorization: Bearer <token>\<close> set and
  everything else unchanged; with no token stored (a missing or empty item) it is the
  request itself, so no \<^verbatim>\<open>Authorization\<close> header is added.
\<close>

theorem authInterceptorFn_forwarding:
  "upstream (authInterceptorFn req s)
     = upstream s @ [Forwarded (authReq (getAccessToken (auth s)) req)]
   \<and> (isAuthEndpoint (url req) \<longrightarrow> authReq (getAccessToken (auth s)) req = req)
   \<and> (\<not> isAuthEndpoint (url req) \<and> TOKEN_KEY (auth s) = Some t \<and> t \<noteq> [] \<longrightarrow>
        authReq (getAccessToken (auth s)) req = addToken req t
      \<and> headers (authReq (getAccessToken (auth s)) req) ''Authorization'' = Some (''Bearer '' @ t)
      \<and> (\<forall>h. h \<noteq> ''Authorization'' \<longrightarrow>
            headers (authReq (getAccessToken (auth s)) req) h = headers req h)
      \<and> url (authReq (getAccessToken (auth s)) req) = url req
      \<and> http_method (authReq (getAccessToken (auth s)) req) = http_method req
      \<and> body (authReq (getAccessToken (auth s)) req) = body req)
   \<and> (\<not> isAuthEndpoint (url req) \<and> \<not> truthy (TOKEN_KEY (auth s)) \<longrightarrow>
        authReq (getAccessToken (auth s)) req = req
      \<and> (headers req ''Authorization'' = None \<longrightarrow>
            headers (authReq (getAccessToken (auth s)) req) ''Authorization'' = None))"
  by (simp add: authInterceptorFn_def authReq_def getAccessToken_def addToken_def truthy_def
      split: option.split)

theorem authInterceptorFn_forwarding_witness:
  "isAuthEndpoint (url postLogin)
   \<and> upstream (authInterceptorFn postLogin loggedIn) = [Forwarded postLogin]
   \<and> \<not> isAuthEndpoint (url getPosts) \<and> TOKEN_KEY (auth loggedIn) = Some ''abc'' \<and> ''abc'' \<noteq> []
   \<and> upstream (authInterceptorFn getPosts loggedIn) = [Forwarded (addToken getPosts ''abc'')]
   \<and> headers (addToken getPosts ''abc'') ''Authorization'' = Some ''Bearer abc''
   \<and> \<not> truthy (TOKEN_KEY (auth loggedOut))
   \<and> upstream (authInterceptorFn getPosts loggedOut) = [Forwarded getPosts]
   \<and> headers getPosts ''Authorization'' = None"
proof -
  have e1: "isAuthEndpoint (url postLogin)"
    by (simp add: isAuthEndpoint_def AUTH_ENDPOINTS_def postLogin_def)
  have e2: "\<not> isAuthEndpoint (url getPosts)"
    by (simp add: isAuthEndpoint_def AUTH_ENDPOINTS_def getPosts_def)
  have t1: "TOKEN_KEY (auth loggedIn) = Some ''abc''" and u1: "upstream loggedIn = []"
    by (simp_all add: loggedIn_def loggedOut_def)
  have t0: "\<not> truthy (TOKEN_KEY (auth loggedOut))" and u0: "upstream loggedOut = []"
    by (simp_all add: loggedOut_def truthy_def)
  have h: "headers getPosts ''Authorization'' = None"
    by (simp add: getPosts_def)
  show ?thesis
    using authInterceptorFn_forwarding [of postLogin loggedIn "''abc''"]
      authInterceptorFn_forwarding [of getPosts loggedIn "''abc''"]
      authInterceptorFn_forwarding [of getPosts loggedOut "''abc''"]
      e1 e2 t1 u1 t0 u0 h
    by (simp add: addToken_header)
qed

end
